theory Spec2Isabelle
  imports Complex_Main
begin

section \<open>MincePieVote: the comparison list and its synchronisation\<close>

text \<open>
  A shallow embedding of \<^verbatim>\<open>src/MincePieVote.jsx\<close>. The React component keeps six
  pieces of state and seven functions that change them; each function becomes a function
  from state to state. What the component does to the outside world (state setters called,
  network requests issued, console messages, dialogs shown) is appended to a list of effects
  kept in the state, in the order the code performs them.

  Conventions of the embedding:
  \<^item> a JS number that holds a counter is an \<open>int\<close>: counters below \<open>2^53\<close> are exact
    in a double. A JS number that holds an id is a \<open>real\<close>, and the sum
    \<^verbatim>\<open>Date.now() + Math.random()\<close> is taken exactly; a double rounds it, which can only
    merge two ids. \<^verbatim>\<open>NaN\<close> and the infinities are not represented;
  \<^item> a JS string is a \<open>string\<close>, one \<open>char\<close> per code unit below 256;
  \<^item> the clock, the random generator, the answer of \<^verbatim>\<open>confirm\<close> and the replies of the
    network are arguments of the functions that read them;
  \<^item> an \<^verbatim>\<open>async\<close> function is two functions: what the call does before it returns its
    promise, and what its continuation does once the awaited request has settled;
  \<^item> a call of a state setter changes the state at the call, and every handler runs on
    the state that the calls before it have left (React applies the calls of a handler
    at the render that follows it; no function here reads the state after it has called
    a setter).
  The record fields \<^verbatim>\<open>id\<close>, \<^verbatim>\<open>a\<close>, \<^verbatim>\<open>b\<close> of a comparison are \<open>id_c\<close>, \<open>a_c\<close>, \<open>b_c\<close>;
  the fields of the form carry the suffix \<open>_f\<close>.
\<close>

subsection \<open>Data\<close>

record comparison =
  id_c :: real
  a_c :: string
  b_c :: string
  aImg :: string
  bImg :: string
  votesA :: int
  votesB :: int
  createdAt :: string

record form =
  a_f :: string
  b_f :: string
  aImg_f :: string
  bImg_f :: string

text \<open>The value of \<^verbatim>\<open>res.json()\<close>. The elements of an array are comparison records, as the
  remote store's contract has it; the content of the other values is never read.\<close>

datatype json =
  JsonArray "comparison list"
  | JsonObject
  | JsonString string
  | JsonNumber real
  | JsonBool bool
  | JsonNull

text \<open>How \<^verbatim>\<open>fetch(...?action=list)\<close> followed by \<^verbatim>\<open>res.json()\<close> settles, and how the
  \<^verbatim>\<open>fetch\<close> of the update settles.\<close>

datatype list_reply = FetchRejected | JsonRejected | JsonParsed json

datatype post_reply = PostFulfilled | PostRejected

datatype request =
  GetList
  | PostUpdate "comparison list"

datatype effect =
  SetComparisons "comparison list"
  | SetLoading bool
  | SetSaving bool
  | SetShowAdd bool
  | SetForm form
  | Fetch request
  | ConsoleError string
  | Confirm string
  | PreventDefault

record state =
  comparisons :: "comparison list"
  loading :: bool
  saving :: bool
  showAdd :: bool
  form :: form
  filter_st :: string
  effects :: "effect list"

text \<open>What \<^verbatim>\<open>addComparison\<close> reads from its environment: \<^verbatim>\<open>Date.now()\<close>,
  \<^verbatim>\<open>Math.random()\<close> and \<^verbatim>\<open>new Date().toISOString()\<close>.\<close>

record env =
  dateNow :: real
  mathRandom :: real
  toISOString :: string

definition emptyForm :: form where
  "emptyForm = \<lparr>a_f = '''', b_f = '''', aImg_f = '''', bImg_f = ''''\<rparr>"

definition initialState :: state where
  "initialState =
     \<lparr>comparisons = [], loading = True, saving = False, showAdd = False,
      form = emptyForm, filter_st = '''', effects = []\<rparr>"

subsection \<open>Library functions of the language\<close>

text \<open>\<^verbatim>\<open>String.prototype.trim\<close>: white space and line terminators among the code units
  below 256 are TAB, LF, VT, FF, CR, SP and NBSP.\<close>

definition isWhiteSpace :: "char \<Rightarrow> bool" where
  "isWhiteSpace ch = ((of_char ch :: nat) \<in> {9, 10, 11, 12, 13, 32, 160})"

definition trim :: "string \<Rightarrow> string" where
  "trim s = rev (dropWhile isWhiteSpace (rev (dropWhile isWhiteSpace s)))"


definition Array_isArray :: "json \<Rightarrow> bool" where
  "Array_isArray data = (case data of JsonArray _ \<Rightarrow> True | _ \<Rightarrow> False)"

text \<open>The elements of a value that is an array.\<close>

fun arrayItems :: "json \<Rightarrow> comparison list" where
  "arrayItems (JsonArray xs) = xs"
| "arrayItems _ = []"

subsection \<open>State setters and effects\<close>

definition emit :: "effect \<Rightarrow> state \<Rightarrow> state" where
  "emit e st = st\<lparr>effects := effects st @ [e]\<rparr>"

definition setComparisons :: "comparison list \<Rightarrow> state \<Rightarrow> state" where
  "setComparisons v st = emit (SetComparisons v) (st\<lparr>comparisons := v\<rparr>)"

definition setLoading :: "bool \<Rightarrow> state \<Rightarrow> state" where
  "setLoading v st = emit (SetLoading v) (st\<lparr>loading := v\<rparr>)"

definition setSaving :: "bool \<Rightarrow> state \<Rightarrow> state" where
  "setSaving v st = emit (SetSaving v) (st\<lparr>saving := v\<rparr>)"

definition setShowAdd :: "bool \<Rightarrow> state \<Rightarrow> state" where
  "setShowAdd v st = emit (SetShowAdd v) (st\<lparr>showAdd := v\<rparr>)"

definition setForm :: "form \<Rightarrow> state \<Rightarrow> state" where
  "setForm v st = emit (SetForm v) (st\<lparr>form := v\<rparr>)"

subsection \<open>Loading and saving\<close>

text \<open>\<^verbatim>\<open>loadData\<close> up to its first \<^verbatim>\<open>await\<close>, and its continuation once the request and
  the parse of its body have settled. A rejection of either lands in the \<^verbatim>\<open>catch\<close>.\<close>

definition loadData :: "state \<Rightarrow> state" where
  "loadData st = emit (Fetch GetList) (setLoading True st)"

definition loadData_settled :: "list_reply \<Rightarrow> state \<Rightarrow> state" where
  "loadData_settled reply st =
     setLoading False
       (case reply of
          JsonParsed data \<Rightarrow>
            setComparisons (if Array_isArray data then arrayItems data else []) st
        | _ \<Rightarrow> emit (ConsoleError ''Failed to load sheet data'') st)"

text \<open>\<^verbatim>\<open>saveData\<close> up to its \<^verbatim>\<open>await\<close>, and its continuation.\<close>

definition saveData :: "comparison list \<Rightarrow> state \<Rightarrow> state" where
  "saveData next st = emit (Fetch (PostUpdate next)) (setSaving True st)"

definition saveData_settled :: "post_reply \<Rightarrow> state \<Rightarrow> state" where
  "saveData_settled reply st =
     setSaving False
       (case reply of
          PostFulfilled \<Rightarrow> st
        | PostRejected \<Rightarrow> emit (ConsoleError ''Failed to save sheet data'') st)"

definition sync :: "comparison list \<Rightarrow> state \<Rightarrow> state" where
  "sync next st = saveData next (setComparisons next st)"

subsection \<open>The four mutations\<close>

text \<open>\<open>newRow\<close> is the object literal \<^verbatim>\<open>row\<close> of \<^verbatim>\<open>addComparison\<close>; \<open>voteRow\<close> and
  \<open>resetRow\<close> are the arrow functions that \<^verbatim>\<open>vote\<close> and \<^verbatim>\<open>resetVotes\<close> map over the
  collection.\<close>

definition newRow :: "env \<Rightarrow> form \<Rightarrow> comparison" where
  "newRow ev f =
     \<lparr>id_c = dateNow ev + mathRandom ev,
      a_c = trim (a_f f),
      b_c = trim (b_f f),
      aImg = trim (aImg_f f),
      bImg = trim (bImg_f f),
      votesA = 0,
      votesB = 0,
      createdAt = toISOString ev\<rparr>"

text \<open>The argument \<open>e\<close> says whether an event was passed
  (\<^verbatim>\<open>e && e.preventDefault()\<close>).\<close>

definition addComparison :: "bool \<Rightarrow> env \<Rightarrow> state \<Rightarrow> state" where
  "addComparison e ev st =
     (let st1 = (if e then emit PreventDefault st else st);
          row = newRow ev (form st1);
          next = row # comparisons st1
      in setShowAdd False (setForm emptyForm (sync next st1)))"

definition voteRow :: "real \<Rightarrow> string \<Rightarrow> comparison \<Rightarrow> comparison" where
  "voteRow i side c =
     (if id_c c = i
      then c\<lparr>votesA := (if side = ''A'' then votesA c + 1 else votesA c),
             votesB := (if side = ''B'' then votesB c + 1 else votesB c)\<rparr>
      else c)"

definition vote :: "real \<Rightarrow> string \<Rightarrow> state \<Rightarrow> state" where
  "vote i side st = sync (map (voteRow i side) (comparisons st)) st"

definition resetRow :: "real \<Rightarrow> comparison \<Rightarrow> comparison" where
  "resetRow i c = (if id_c c = i then c\<lparr>votesA := 0, votesB := 0\<rparr> else c)"

text \<open>The argument \<open>answer\<close> is what \<^verbatim>\<open>confirm\<close> returns.\<close>

definition resetVotes :: "real \<Rightarrow> bool \<Rightarrow> state \<Rightarrow> state" where
  "resetVotes i answer st =
     (let st1 = emit (Confirm ''Reset votes?'') st
      in if \<not> answer then st1
         else sync (map (resetRow i) (comparisons st1)) st1)"

definition deleteComparison :: "real \<Rightarrow> bool \<Rightarrow> state \<Rightarrow> state" where
  "deleteComparison i answer st =
     (let st1 = emit (Confirm ''Delete this comparison?'') st
      in if \<not> answer then st1
         else sync (filter (\<lambda>c. id_c c \<noteq> i) (comparisons st1)) st1)"

subsection \<open>Submitting the form\<close>

text \<open>\<^verbatim>\<open>addComparison\<close> is the \<^verbatim>\<open>onSubmit\<close> handler of the form, whose two name inputs are
  \<^verbatim>\<open>required\<close>: the browser raises the submit event only when neither value is the
  empty string.\<close>

definition valueMissing :: "string \<Rightarrow> bool" where
  "valueMissing v = (v = [])"

definition onSubmit :: "env \<Rightarrow> state \<Rightarrow> state" where
  "onSubmit ev st =
     (if valueMissing (a_f (form st)) \<or> valueMissing (b_f (form st)) then st
      else addComparison True ev st)"

subsection \<open>The percentages of a rendered row\<close>




subsection \<open>The component as a transition system\<close>

text \<open>The four \<^verbatim>\<open>onChange\<close> handlers of the form: \<^verbatim>\<open>setForm({ ...form, a: value })\<close> and
  its three siblings.\<close>

datatype field = FieldA | FieldAImg | FieldB | FieldBImg

definition onChange :: "field \<Rightarrow> string \<Rightarrow> state \<Rightarrow> state" where
  "onChange fld v st =
     (case fld of
        FieldA \<Rightarrow> setForm ((form st)\<lparr>a_f := v\<rparr>) st
      | FieldAImg \<Rightarrow> setForm ((form st)\<lparr>aImg_f := v\<rparr>) st
      | FieldB \<Rightarrow> setForm ((form st)\<lparr>b_f := v\<rparr>) st
      | FieldBImg \<Rightarrow> setForm ((form st)\<lparr>bImg_f := v\<rparr>) st)"

text \<open>One action is one call of a handler or one settled request.\<close>

datatype action =
  AddComparison bool env
  | Vote real string
  | ResetVotes real bool
  | DeleteComparison real bool
  | Change field string
  | SaveSettled post_reply

fun step :: "action \<Rightarrow> state \<Rightarrow> state" where
  "step (AddComparison e ev) st = addComparison e ev st"
| "step (Vote i side) st = vote i side st"
| "step (ResetVotes i answer) st = resetVotes i answer st"
| "step (DeleteComparison i answer) st = deleteComparison i answer st"
| "step (Change fld v) st = onChange fld v st"
| "step (SaveSettled reply) st = saveData_settled reply st"


text \<open>The actions that reach \<^verbatim>\<open>sync\<close>: an add, a vote, and a reset or a delete that the
  user confirmed.\<close>

fun isMutation :: "action \<Rightarrow> bool" where
  "isMutation (AddComparison e ev) = True"
| "isMutation (Vote i side) = True"
| "isMutation (ResetVotes i answer) = answer"
| "isMutation (DeleteComparison i answer) = answer"
| "isMutation (Change fld v) = False"
| "isMutation (SaveSettled reply) = False"

text \<open>The bodies of the update requests issued so far, oldest first.\<close>

fun pushes :: "effect list \<Rightarrow> comparison list list" where
  "pushes [] = []"
| "pushes (Fetch (PostUpdate body) # es) = body # pushes es"
| "pushes (e # es) = pushes es"


subsection \<open>Example data\<close>

definition env1 :: env where
  "env1 = \<lparr>dateNow = 1700000000000, mathRandom = 1 / 4,
            toISOString = ''2023-11-14T22:13:20.000Z''\<rparr>"


definition row1 :: comparison where
  "row1 = \<lparr>id_c = 1700000000000 + 1 / 4, a_c = ''Tesco'', b_c = ''Aldi'',
            aImg = [], bImg = [], votesA = 2, votesB = 1,
            createdAt = ''2023-11-14T22:13:20.000Z''\<rparr>"

definition row2 :: comparison where
  "row2 = \<lparr>id_c = 1700000060000 + 3 / 4, a_c = ''Lidl'', b_c = ''Asda'',
            aImg = [], bImg = [], votesA = 0, votesB = 5,
            createdAt = ''2023-11-14T22:14:20.000Z''\<rparr>"

text \<open>The state after the list \<open>cs\<close> has been loaded from the store.\<close>

definition loaded :: "comparison list \<Rightarrow> state" where
  "loaded cs = loadData_settled (JsonParsed (JsonArray cs)) (loadData initialState)"

section \<open>Properties\<close>

subsection \<open>What each function does to the collection and to the effects\<close>

lemmas setter_defs =
  emit_def setComparisons_def setLoading_def setSaving_def setShowAdd_def setForm_def

lemmas sync_defs = setter_defs saveData_def sync_def

lemma comparisons_sync: "comparisons (sync next st) = next"
  by (simp add: sync_defs)

lemma effects_sync:
  "effects (sync next st) =
     effects st @ [SetComparisons next, SetSaving True, Fetch (PostUpdate next)]"
  by (simp add: sync_defs)

lemma comparisons_addComparison:
  "comparisons (addComparison e ev st) = newRow ev (form st) # comparisons st"
  by (simp add: addComparison_def Let_def sync_defs)

lemma comparisons_vote:
  "comparisons (vote i side st) = map (voteRow i side) (comparisons st)"
  by (simp add: vote_def sync_defs)

lemma comparisons_resetVotes:
  "comparisons (resetVotes i answer st) =
     (if answer then map (resetRow i) (comparisons st) else comparisons st)"
  by (simp add: resetVotes_def Let_def sync_defs)

lemma comparisons_deleteComparison:
  "comparisons (deleteComparison i answer st) =
     (if answer then filter (\<lambda>c. id_c c \<noteq> i) (comparisons st) else comparisons st)"
  by (simp add: deleteComparison_def Let_def sync_defs)

lemma comparisons_onChange: "comparisons (onChange fld v st) = comparisons st"
  by (simp add: onChange_def setter_defs split: field.splits)

lemma comparisons_saveData_settled:
  "comparisons (saveData_settled reply st) = comparisons st"
  by (simp add: saveData_settled_def setter_defs split: post_reply.splits)

lemma comparisons_loadData: "comparisons (loadData st) = comparisons st"
  by (simp add: loadData_def setter_defs)

lemma comparisons_loadData_settled:
  "comparisons (loadData_settled reply st) =
     (case reply of
        JsonParsed (JsonArray xs) \<Rightarrow> xs
      | JsonParsed _ \<Rightarrow> []
      | _ \<Rightarrow> comparisons st)"
  by (simp add: loadData_settled_def setter_defs Array_isArray_def
      split: list_reply.splits json.splits)

lemmas comparisons_simps =
  comparisons_sync comparisons_addComparison comparisons_vote comparisons_resetVotes
  comparisons_deleteComparison comparisons_onChange comparisons_saveData_settled
  comparisons_loadData comparisons_loadData_settled

lemma comparisons_loaded: "comparisons (loaded cs) = cs"
  by (simp add: loaded_def comparisons_simps)





subsection \<open>Invariants of a run\<close>









subsection \<open>deleteComparison\<close>

lemma filter_other_ids:
  assumes "distinct (map id_c cs)" and "c \<in> set cs"
  shows "filter (\<lambda>x. id_c x \<noteq> id_c c) cs = remove1 c cs"
  using assms
proof (induction cs)
  case Nil
  then show ?case by simp
next
  case (Cons x xs)
  show ?case
  proof (cases "x = c")
    case True
    with Cons.prems(1) have "\<forall>y\<in>set xs. id_c y \<noteq> id_c c"
      by (auto simp: image_iff)
    then have "filter (\<lambda>x. id_c x \<noteq> id_c c) xs = xs"
      by (simp add: filter_id_conv)
    with True show ?thesis by simp
  next
    case False
    with Cons.prems have "c \<in> set xs" and "distinct (map id_c xs)" and "id_c x \<noteq> id_c c"
      by auto
    with Cons.IH False show ?thesis by simp
  qed
qed

text \<open>
  C2 (as amended). In a collection whose ids are pairwise distinct, a confirmed
  \<^verbatim>\<open>deleteComparison(id)\<close> with the id of a record \<open>c\<close> of the collection removes exactly
  that record, keeps the others in their order, and leaves the collection one shorter.
\<close>

theorem deleteComparison_removes_one:
  assumes "distinct (map id_c (comparisons st))"
    and "c \<in> set (comparisons st)"
    and "id_c c = i"
  shows "comparisons (deleteComparison i True st) = remove1 c (comparisons st)
    \<and> length (comparisons (deleteComparison i True st)) + 1 = length (comparisons st)
    \<and> c \<notin> set (comparisons (deleteComparison i True st))"
proof -
  have eq: "comparisons (deleteComparison i True st) = remove1 c (comparisons st)"
    using assms filter_other_ids [of "comparisons st" c]
    by (simp add: comparisons_deleteComparison)
  from assms(2) have "0 < length (comparisons st)"
    by (cases "comparisons st") auto
  with assms(2) have len: "length (remove1 c (comparisons st)) + 1 = length (comparisons st)"
    by (simp add: length_remove1)
  from assms(1) have "distinct (comparisons st)"
    by (simp add: distinct_map)
  then have "c \<notin> set (remove1 c (comparisons st))"
    by simp
  with eq len show ?thesis by simp
qed

text \<open>Two loaded records; the older one is deleted.\<close>

theorem deleteComparison_removes_one_witness:
  "distinct (map id_c (comparisons (loaded [row2, row1])))
   \<and> row1 \<in> set (comparisons (loaded [row2, row1]))
   \<and> comparisons (deleteComparison (1700000000000 + 1 / 4) True (loaded [row2, row1])) = [row2]
   \<and> length (comparisons (deleteComparison (1700000000000 + 1 / 4) True (loaded [row2, row1]))) + 1
       = length (comparisons (loaded [row2, row1]))"
proof -
  have d: "distinct (map id_c (comparisons (loaded [row2, row1])))"
    by (simp add: comparisons_loaded row1_def row2_def)
  have m: "row1 \<in> set (comparisons (loaded [row2, row1]))"
    by (simp add: comparisons_loaded)
  have i: "id_c row1 = 1700000000000 + 1 / 4"
    by (simp add: row1_def)
  have ne: "row2 \<noteq> row1"
    by (simp add: row1_def row2_def)
  from deleteComparison_removes_one [OF d m i] d m ne show ?thesis
    by (simp add: comparisons_loaded)
qed

text \<open>C2 as stated fails: with an id that no record has, the filter keeps every record
  and the length stays as it was.\<close>

theorem deleteComparison_absent_id:
  "length (comparisons (deleteComparison 7 True (loaded [row1]))) + 1
     \<noteq> length (comparisons (loaded [row1]))"
  by (simp add: comparisons_deleteComparison comparisons_loaded row1_def)

subsection \<open>resetVotes\<close>

lemma pushes_append: "pushes (es @ fs) = pushes es @ pushes fs"
  by (induction es rule: pushes.induct) simp_all

text \<open>
  C3. When \<^verbatim>\<open>confirm\<close> answers no, \<^verbatim>\<open>resetVotes(id)\<close> leaves the collection as it is
  and issues no push. When it answers yes, the collection keeps its length, every record
  whose id is \<open>id\<close> has both counters at 0 afterwards, and every other record is
  unchanged.
\<close>

theorem resetVotes_gate:
  "comparisons (resetVotes i False st) = comparisons st
   \<and> pushes (effects (resetVotes i False st)) = pushes (effects st)
   \<and> length (comparisons (resetVotes i True st)) = length (comparisons st)
   \<and> (\<forall>k<length (comparisons st).
         (id_c (comparisons st ! k) = i \<longrightarrow>
            id_c (comparisons (resetVotes i True st) ! k) = i
            \<and> votesA (comparisons (resetVotes i True st) ! k) = 0
            \<and> votesB (comparisons (resetVotes i True st) ! k) = 0)
         \<and> (id_c (comparisons st ! k) \<noteq> i \<longrightarrow>
            comparisons (resetVotes i True st) ! k = comparisons st ! k))"
proof -
  have "pushes (effects (resetVotes i False st)) = pushes (effects st)"
    by (simp add: resetVotes_def Let_def emit_def pushes_append)
  then show ?thesis
    by (simp add: comparisons_resetVotes resetRow_def)
qed

text \<open>Two loaded records; the votes of the second are reset.\<close>

theorem resetVotes_gate_witness:
  "(1::nat) < length (comparisons (loaded [row2, row1]))
   \<and> id_c (comparisons (loaded [row2, row1]) ! 1) = 1700000000000 + 1 / 4
   \<and> id_c (comparisons (loaded [row2, row1]) ! 0) \<noteq> 1700000000000 + 1 / 4
   \<and> comparisons (resetVotes (1700000000000 + 1 / 4) False (loaded [row2, row1])) = [row2, row1]
   \<and> votesA (comparisons (resetVotes (1700000000000 + 1 / 4) True (loaded [row2, row1])) ! 1) = 0
   \<and> votesB (comparisons (resetVotes (1700000000000 + 1 / 4) True (loaded [row2, row1])) ! 1) = 0
   \<and> comparisons (resetVotes (1700000000000 + 1 / 4) True (loaded [row2, row1])) ! 0 = row2"
proof -
  let ?i = "1700000000000 + 1 / 4 :: real" and ?st = "loaded [row2, row1]"
  have k: "(1::nat) < length (comparisons ?st)" "(0::nat) < length (comparisons ?st)"
    by (simp_all add: comparisons_loaded)
  have i1: "id_c (comparisons ?st ! 1) = ?i"
    by (simp add: comparisons_loaded row1_def)
  have i0: "id_c (comparisons ?st ! 0) \<noteq> ?i"
    by (simp add: comparisons_loaded row2_def)
  have c: "comparisons ?st = [row2, row1]"
    by (simp add: comparisons_loaded)
  from resetVotes_gate [of ?i ?st] k(1) i1
  have "votesA (comparisons (resetVotes ?i True ?st) ! 1) = 0
    \<and> votesB (comparisons (resetVotes ?i True ?st) ! 1) = 0"
    by blast
  moreover from resetVotes_gate [of ?i ?st] k(2) i0
  have "comparisons (resetVotes ?i True ?st) ! 0 = comparisons ?st ! 0"
    by blast
  moreover from resetVotes_gate [of ?i ?st]
  have "comparisons (resetVotes ?i False ?st) = comparisons ?st"
    by blast
  ultimately show ?thesis
    using k(1) i1 i0 by (simp only: c nth_Cons_0 simp_thms)
qed

subsection \<open>vote\<close>



subsection \<open>addComparison\<close>




subsection \<open>loadData\<close>

text \<open>
  C6 (as amended). When the body of the reply parses to a value that is not an array,
  the load sets the collection to the empty one, whatever it held before. (A body that
  fails to parse is a failure of the load: see C7.)
\<close>

theorem loadData_non_array_empties:
  assumes "\<not> Array_isArray data"
  shows "comparisons (loadData_settled (JsonParsed data) (loadData st)) = []
    \<and> comparisons (loadData_settled (JsonParsed data) st) = []"
  using assms
  by (cases data) (simp_all add: comparisons_loadData_settled Array_isArray_def)

text \<open>The store answers a second load with an object.\<close>

theorem loadData_non_array_empties_witness:
  "\<not> Array_isArray JsonObject
   \<and> comparisons (loaded [row1]) = [row1]
   \<and> comparisons (loadData_settled (JsonParsed JsonObject) (loadData (loaded [row1]))) = []"
proof -
  have a: "\<not> Array_isArray JsonObject"
    by (simp add: Array_isArray_def)
  from loadData_non_array_empties [OF a, of "loaded [row1]"] a show ?thesis
    by (simp only: comparisons_loaded simp_thms)
qed

text \<open>C6 as stated fails: a record is added while the first load is in flight, the body of
  the reply fails to parse, and the collection still holds the record.\<close>

theorem loadData_unparsable_keeps:
  "comparisons (loadData_settled JsonRejected (addComparison True env1 (loadData initialState)))
     \<noteq> []"
  by (simp add: comparisons_loadData_settled comparisons_addComparison)

text \<open>
  C7. When the request or the parse of its body is rejected, the collection after the
  load is the collection before it; the load issues one request, logs one error and
  issues no second request.
\<close>

theorem loadData_failure_keeps_state:
  assumes "reply = FetchRejected \<or> reply = JsonRejected"
  shows "comparisons (loadData_settled reply (loadData st)) = comparisons st
    \<and> effects (loadData_settled reply (loadData st)) =
        effects st @ [SetLoading True, Fetch GetList,
                      ConsoleError ''Failed to load sheet data'', SetLoading False]"
  using assms
  by (auto simp: loadData_settled_def loadData_def setter_defs)

text \<open>A second load over two loaded records fails, once in the network and once in the
  parse.\<close>

theorem loadData_failure_keeps_state_witness:
  "comparisons (loaded [row2, row1]) = [row2, row1]
   \<and> comparisons (loadData_settled FetchRejected (loadData (loaded [row2, row1]))) = [row2, row1]
   \<and> comparisons (loadData_settled JsonRejected (loadData (loaded [row2, row1]))) = [row2, row1]"
proof -
  from loadData_failure_keeps_state [of FetchRejected "loaded [row2, row1]"]
  have "comparisons (loadData_settled FetchRejected (loadData (loaded [row2, row1])))
      = comparisons (loaded [row2, row1])"
    by blast
  moreover from loadData_failure_keeps_state [of JsonRejected "loaded [row2, row1]"]
  have "comparisons (loadData_settled JsonRejected (loadData (loaded [row2, row1])))
      = comparisons (loaded [row2, row1])"
    by blast
  ultimately show ?thesis
    by (simp only: comparisons_loaded simp_thms)
qed

subsection \<open>sync\<close>

lemma pushes_step:
  "pushes (effects (step x st)) =
     (if isMutation x then pushes (effects st) @ [comparisons (step x st)]
      else pushes (effects st))"
  by (cases x)
    (simp_all add: addComparison_def vote_def resetVotes_def deleteComparison_def
      onChange_def saveData_settled_def Let_def sync_defs pushes_append
      split: field.splits post_reply.splits)

text \<open>
  C8. \<^verbatim>\<open>sync(next)\<close> sets the collection to \<open>next\<close> and then issues the push, whose
  body is \<open>next\<close>; a rejected push leaves the collection at \<open>next\<close>. Every mutation
  (an add, a vote, a confirmed reset or delete) issues exactly one push, its body is the
  whole collection that the mutation leaves in memory, and that collection is still in
  memory after the push has been rejected.
\<close>

theorem sync_optimistic:
  "effects (sync next st) =
     effects st @ [SetComparisons next, SetSaving True, Fetch (PostUpdate next)]
   \<and> comparisons (sync next st) = next
   \<and> comparisons (saveData_settled PostRejected (sync next st)) = next
   \<and> (isMutation x \<longrightarrow>
        pushes (effects (step x st)) = pushes (effects st) @ [comparisons (step x st)]
        \<and> comparisons (saveData_settled PostRejected (step x st)) = comparisons (step x st))"
  by (simp add: effects_sync comparisons_sync comparisons_saveData_settled pushes_step)

text \<open>A vote on a loaded record, whose push is rejected.\<close>

theorem sync_optimistic_witness:
  "isMutation (Vote (1700000000000 + 1 / 4) ''B'')
   \<and> pushes (effects (step (Vote (1700000000000 + 1 / 4) ''B'') (loaded [row1])))
       = [[row1\<lparr>votesB := 2\<rparr>]]
   \<and> comparisons (saveData_settled PostRejected
        (step (Vote (1700000000000 + 1 / 4) ''B'') (loaded [row1]))) = [row1\<lparr>votesB := 2\<rparr>]"
proof -
  let ?x = "Vote (1700000000000 + 1 / 4) ''B''"
  have m: "isMutation ?x"
    by simp
  have p: "pushes (effects (loaded [row1])) = []"
    by (simp add: loaded_def loadData_def loadData_settled_def initialState_def setter_defs)
  have c: "comparisons (step ?x (loaded [row1])) = [row1\<lparr>votesB := 2\<rparr>]"
    by (simp add: comparisons_vote comparisons_loaded voteRow_def row1_def)
  from sync_optimistic [of _ "loaded [row1]" ?x] m
  have "pushes (effects (step ?x (loaded [row1])))
        = pushes (effects (loaded [row1])) @ [comparisons (step ?x (loaded [row1]))]
      \<and> comparisons (saveData_settled PostRejected (step ?x (loaded [row1])))
        = comparisons (step ?x (loaded [row1]))"
    by blast
  with m show ?thesis
    by (simp only: p c append_Nil simp_thms)
qed

subsection \<open>The names of a new record\<close>

lemma trim_empty_iff: "trim s = [] \<longleftrightarrow> (\<forall>ch\<in>set s. isWhiteSpace ch)"
proof -
  have "trim s = [] \<longleftrightarrow> (\<forall>ch\<in>set (dropWhile isWhiteSpace s). isWhiteSpace ch)"
    by (simp add: trim_def dropWhile_eq_Nil_conv)
  also have "\<dots> \<longleftrightarrow> dropWhile isWhiteSpace s = []"
  proof
    assume all: "\<forall>ch\<in>set (dropWhile isWhiteSpace s). isWhiteSpace ch"
    show "dropWhile isWhiteSpace s = []"
    proof (rule ccontr)
      assume ne: "dropWhile isWhiteSpace s \<noteq> []"
      then have "\<not> isWhiteSpace (hd (dropWhile isWhiteSpace s))"
        by (rule hd_dropWhile)
      moreover from ne have "hd (dropWhile isWhiteSpace s) \<in> set (dropWhile isWhiteSpace s)"
        by (rule hd_in_set)
      ultimately show False
        using all by blast
    qed
  next
    assume e: "dropWhile isWhiteSpace s = []"
    show "\<forall>ch\<in>set (dropWhile isWhiteSpace s). isWhiteSpace ch"
      unfolding e by simp
  qed
  also have "\<dots> \<longleftrightarrow> (\<forall>ch\<in>set s. isWhiteSpace ch)"
    by (simp add: dropWhile_eq_Nil_conv)
  finally show ?thesis .
qed

text \<open>The name of a new record is empty exactly when the typed name has nothing but white
  space in it.\<close>

lemma name_newRow:
  "a_c (newRow ev f) \<noteq> [] \<longleftrightarrow> (\<exists>ch\<in>set (a_f f). \<not> isWhiteSpace ch)"
  by (simp add: newRow_def trim_empty_iff)

text \<open>
  C9 fails on the code. A name of three blanks is not missing for the form, so the submit
  reaches \<^verbatim>\<open>addComparison\<close>, which trims it: the new record has the empty string as its
  \<^verbatim>\<open>a\<close>.
\<close>

theorem onSubmit_blank_name:
  "\<not> valueMissing ''   ''
   \<and> comparisons (onSubmit env1 (onChange FieldB ''Aldi'' (onChange FieldA ''   '' initialState)))
        \<noteq> []
   \<and> a_c (hd (comparisons (onSubmit env1
        (onChange FieldB ''Aldi'' (onChange FieldA ''   '' initialState))))) = ''''
   \<and> b_c (hd (comparisons (onSubmit env1
        (onChange FieldB ''Aldi'' (onChange FieldA ''   '' initialState))))) = ''Aldi''"
  by (simp add: onSubmit_def valueMissing_def comparisons_addComparison newRow_def
      onChange_def setter_defs initialState_def emptyForm_def trim_def isWhiteSpace_def)

subsection \<open>Percentages\<close>





end
